theory Spec2Isabelle
  imports Complex_Main
begin

section \<open>Asset Repair: data model\<close>

text \<open>
  The embedding follows \<^verbatim>\<open>erpnext/assets/doctype/asset_repair/asset_repair.py\<close>.
  A number that Python holds is the rational it denotes. Where a property depends on the
  rounding of binary floating point (the round trip of the asset's value), the operation is
  the IEEE-754 one, defined below; the other amounts are computed exactly, as the
  specification has them (fixed-point, decimal arithmetic). Integer fields (months, counts
  of booked depreciations) are \<open>int\<close>; Python's \<^verbatim>\<open>%\<close> on integers is the floored remainder,
  which is \<open>mod\<close> on \<open>int\<close>.
\<close>

datatype error =
    ValidationError string string  \<comment> \<open>\<^verbatim>\<open>frappe.throw(message, title=...)\<close>; the title is empty when none is given\<close>
  | ZeroDivisionError
  | IndexError
  | TypeError
  | ValueError
  | AttributeError
  | DoesNotExistError

record date =
  year :: int
  month :: int
  day :: int

definition date_less :: "date \<Rightarrow> date \<Rightarrow> bool" where
  \<comment> \<open>\<^verbatim>\<open>a < b\<close> on \<^verbatim>\<open>datetime.date\<close>: by year, then month, then day.\<close>
  "date_less a b =
     (year a < year b \<or>
      (year a = year b \<and> (month a < month b \<or> (month a = month b \<and> day a < day b))))"

record stock_item =
  item_code :: string
  valuation_rate :: rat
  consumed_quantity :: rat
  total_value :: rat
  serial_no :: string

record finance_book_row =
  finance_book :: string
  depreciation_method :: string
  value_after_depreciation :: rat
  total_number_of_depreciations :: rat
  frequency_of_depreciation :: int
  depreciation_start_date :: date
  expected_value_after_useful_life :: rat

text \<open>The \<^verbatim>\<open>flags\<close> of the Asset document; a flag that was never set is \<open>None\<close>.\<close>

record asset_flags =
  increase_in_asset_value_due_to_repair :: "bool option"
  flag_increase_in_asset_life :: "bool option"
  ignore_validate_update_after_submit :: "bool option"

record asset =
  asset_name :: string
  calculate_depreciation :: bool
  number_of_depreciations_booked :: int
  finance_books :: "finance_book_row list"
  to_date :: "date option"
  flags :: asset_flags

record asset_repair =
  name :: string
  asset_link :: string
  company :: string
  repair_status :: string
  repair_cost :: rat
  total_repair_cost :: rat
  stock_consumption :: bool
  capitalize_repair_cost :: bool
  increase_in_asset_life :: int
  stock_items :: "stock_item list"
  warehouse :: "string option"
  purchase_invoice :: "string option"
  stock_entry :: "string option"
  cost_center :: "string option"
  project :: "string option"

definition truthy :: "string option \<Rightarrow> bool" where
  \<comment> \<open>Python truth of a link or data field: \<^verbatim>\<open>None\<close> and the empty string are false.\<close>
  "truthy s = (case s of None \<Rightarrow> False | Some v \<Rightarrow> v \<noteq> [])"

definition flt :: "rat \<Rightarrow> rat" where
  \<comment> \<open>\<^verbatim>\<open>flt(x)\<close> with no precision: the number itself.\<close>
  "flt x = x"

definition cint :: "rat \<Rightarrow> int" where
  \<comment> \<open>\<^verbatim>\<open>cint(x) = int(float(x))\<close>: truncation towards zero.\<close>
  "cint x = (if 0 \<le> x then \<lfloor>x\<rfloor> else \<lceil>x\<rceil>)"

section \<open>Binary floating point\<close>

text \<open>
  A Python \<^verbatim>\<open>float\<close> is an IEEE-754 binary64 number, and is the rational it denotes here.
  \<^verbatim>\<open>a + b\<close> and \<^verbatim>\<open>a - b\<close> on floats are the exact result rounded to the nearest double,
  a tie going to the even significand (\<open>float_add\<close>, \<open>float_sub\<close>). Results beyond the
  finite range, where Python gives \<^verbatim>\<open>inf\<close>, have no rational and are outside the model:
  \<open>is_double\<close> holds of the finite doubles only.
\<close>

definition round_half_even :: "rat \<Rightarrow> int" where
  \<comment> \<open>the nearest integer, a tie going to the even one\<close>
  "round_half_even x =
     (let f = \<lfloor>x\<rfloor>; d = x - of_int f
      in if d < 1 / 2 then f
         else if 1 / 2 < d then f + 1
         else if even f then f else f + 1)"

function bit_length :: "int \<Rightarrow> int" where
  \<comment> \<open>the number of binary digits of a positive \<open>n\<close>\<close>
  "bit_length n = (if n \<le> 0 then 0 else 1 + bit_length (n div 2))"
  by pat_completeness auto
termination
  by (relation "measure nat") auto

declare bit_length.simps [simp del]

definition pow2 :: "int \<Rightarrow> rat" where
  "pow2 k = (if 0 \<le> k then 2 ^ nat k else 1 / 2 ^ nat (- k))"

definition binary_exponent :: "rat \<Rightarrow> int" where
  \<comment> \<open>for \<open>x \<noteq> 0\<close>, the \<open>e\<close> with \<open>2 ^ e \<le> \<bar>x\<bar> < 2 ^ (e + 1)\<close>\<close>
  "binary_exponent x =
     (let (p, q) = quotient_of \<bar>x\<bar>;
          d = bit_length p - bit_length q
      in if pow2 d \<le> \<bar>x\<bar> then d else d - 1)"

definition round_to_double :: "rat \<Rightarrow> rat" where
  \<comment> \<open>the nearest binary64 number: 53 significant bits, the exponent not below that of
      the subnormal numbers, ties to even\<close>
  "round_to_double x =
     (if x = 0 then 0
      else let e = max (binary_exponent x) (- 1022);
               ulp = pow2 (e - 52)
           in of_int (round_half_even (x / ulp)) * ulp)"

definition is_double :: "rat \<Rightarrow> bool" where
  "is_double x = (round_to_double x = x \<and> \<bar>x\<bar> < 2 ^ 1024)"

definition float_add :: "rat \<Rightarrow> rat \<Rightarrow> rat" where
  "float_add x y = round_to_double (x + y)"

definition float_sub :: "rat \<Rightarrow> rat \<Rightarrow> rat" where
  "float_sub x y = round_to_double (x - y)"

section \<open>Stock consumption and the total repair cost\<close>

definition set_stock_items_cost :: "asset_repair \<Rightarrow> asset_repair" where
  "set_stock_items_cost r =
     r\<lparr>stock_items :=
         map (\<lambda>item. item\<lparr>total_value := flt (valuation_rate item) * flt (consumed_quantity item)\<rparr>)
           (stock_items r)\<rparr>"

definition get_total_value_of_stock_consumed :: "asset_repair \<Rightarrow> rat" where
  "get_total_value_of_stock_consumed r =
     (if stock_consumption r
      then foldl (\<lambda>total item. total + total_value item) 0 (stock_items r)
      else 0)"


section \<open>The asset's value\<close>

definition increase_asset_value :: "asset_repair \<Rightarrow> asset \<Rightarrow> asset" where
  "increase_asset_value r a =
     (let total_value_of_stock_consumed = get_total_value_of_stock_consumed r
      in if calculate_depreciation a
         then a\<lparr>finance_books :=
                  map (\<lambda>row.
                         let row1 = row\<lparr>value_after_depreciation :=
                                          float_add (value_after_depreciation row)
                                            total_value_of_stock_consumed\<rparr>
                         in if capitalize_repair_cost r
                            then row1\<lparr>value_after_depreciation :=
                                         float_add (value_after_depreciation row1) (repair_cost r)\<rparr>
                            else row1)
                      (finance_books a)\<rparr>
         else a)"

definition decrease_asset_value :: "asset_repair \<Rightarrow> asset \<Rightarrow> asset" where
  "decrease_asset_value r a =
     (let total_value_of_stock_consumed = get_total_value_of_stock_consumed r
      in if calculate_depreciation a
         then a\<lparr>finance_books :=
                  map (\<lambda>row.
                         let row1 = row\<lparr>value_after_depreciation :=
                                          float_sub (value_after_depreciation row)
                                            total_value_of_stock_consumed\<rparr>
                         in if capitalize_repair_cost r
                            then row1\<lparr>value_after_depreciation :=
                                         float_sub (value_after_depreciation row1) (repair_cost r)\<rparr>
                            else row1)
                      (finance_books a)\<rparr>
         else a)"

text \<open>
  The amounts on which the round trip of the asset's value involves no rounding: every
  addition and subtraction on the way has an exactly representable result. The running
  stock total is summed exactly by \<open>get_total_value_of_stock_consumed\<close>, which is what
  the code's float additions give when none of them rounds.
\<close>

fun running_total_exact :: "rat \<Rightarrow> rat list \<Rightarrow> bool" where
  "running_total_exact acc [] = True"
| "running_total_exact acc (x # xs) =
     (is_double (acc + x) \<and> running_total_exact (acc + x) xs)"

definition adds_without_rounding :: "asset_repair \<Rightarrow> asset \<Rightarrow> bool" where
  "adds_without_rounding r a =
     ((if stock_consumption r
       then running_total_exact 0 (map total_value (stock_items r)) else True) \<and>
      list_all (\<lambda>row.
                  let v = value_after_depreciation row;
                      t = get_total_value_of_stock_consumed r
                  in is_double v \<and> is_double (v + t) \<and>
                     (if capitalize_repair_cost r
                      then is_double (v + t + repair_cost r) \<and> is_double (v + repair_cost r)
                      else True))
               (finance_books a))"

section \<open>External collaborators\<close>

text \<open>
  The repair controller calls into the document store, the stock ledger, the general ledger
  and the depreciation-schedule engine. What it reads from them is a field of the
  environment below; what it asks them to do is recorded as an event, in call order.
  The collaborators themselves (and their own failures) are outside this file.
\<close>

record stock_entry_row =
  s_warehouse :: "string option"
  row_item_code :: string
  qty :: rat
  basic_rate :: rat
  row_serial_no :: string
  row_cost_center :: "string option"
  row_project :: "string option"

record stock_entry_detail =
  amount :: rat
  expense_account :: "string option"

record gl_entry =
  account :: "string option"
  debit :: rat
  debit_in_account_currency :: rat
  credit :: rat
  credit_in_account_currency :: rat
  against :: "string option"
  voucher_type :: string
  voucher_no :: string
  gl_cost_center :: "string option"
  posting_date :: "date option"
  against_voucher_type :: "string option"
  against_voucher :: "string option"
  gl_company :: string

record env =
  fixed_asset_account :: "string option"
    \<comment> \<open>\<^verbatim>\<open>get_asset_account("fixed_asset_account", asset=..., company=...)\<close>\<close>
  purchase_invoice_items :: "string option \<Rightarrow> string option list option"
    \<comment> \<open>the \<^verbatim>\<open>expense_account\<close> of each item of the Purchase Invoice of that name; \<open>None\<close> when there is no such document\<close>
  stock_entry_items :: "string option \<Rightarrow> stock_entry_detail list option"
    \<comment> \<open>the items of the Stock Entry of that name; \<open>None\<close> when there is no such document\<close>
  is_perpetual_inventory_enabled :: bool
  company_default_expense_account :: "string option"
  getdate :: date
    \<comment> \<open>\<^verbatim>\<open>getdate()\<close>: today\<close>
  get_depr_schedule :: "string \<Rightarrow> string \<Rightarrow> date list option"
    \<comment> \<open>the \<^verbatim>\<open>schedule_date\<close> of each row of the Active schedule of (asset, finance book); \<open>None\<close> when there is none\<close>
  add_months :: "date \<Rightarrow> int \<Rightarrow> date"
  schedule_accumulated_depreciation :: "string \<Rightarrow> string \<Rightarrow> rat list option"
    \<comment> \<open>the \<^verbatim>\<open>accumulated_depreciation_amount\<close> of each row of the Active schedule document of (asset, finance book)\<close>
  flt_expected_value :: "rat \<Rightarrow> rat"
    \<comment> \<open>\<^verbatim>\<open>flt(x, row.precision("expected_value_after_useful_life"))\<close>\<close>
  new_stock_entry_name :: string
    \<comment> \<open>the name the inserted Stock Entry receives\<close>

datatype event =
    DbSetAssetStatus string
  | AssetSetStatus
  | StockEntrySubmitted "stock_entry_row list"
  | RepairDbSetStockEntry "string option"
  | MakeGLEntries "gl_entry list" bool
  | MakeNewActiveDeprSchedulesAndCancelCurrentOnes
  | DeprScheduleDbSetExpectedValue string rat
  | AssetSave

record world =
  repair :: asset_repair
  asset_doc :: asset
  events :: "event list"

text \<open>
  A method that can raise returns the state as it stands at that moment, together with
  the error (\<open>None\<close> when it returned normally).
\<close>

type_synonym outcome = "world \<times> error option"

definition then_do :: "outcome \<Rightarrow> (world \<Rightarrow> outcome) \<Rightarrow> outcome" where
  "then_do r f = (case r of (w, Some e) \<Rightarrow> (w, Some e) | (w, None) \<Rightarrow> f w)"

definition emit :: "event \<Rightarrow> world \<Rightarrow> world" where
  "emit ev w = w\<lparr>events := events w @ [ev]\<rparr>"

section \<open>Validation\<close>



definition check_repair_status :: "asset_repair \<Rightarrow> error option" where
  "check_repair_status r =
     (if repair_status r = ''Pending''
      then Some (ValidationError ''Please update Repair Status.'' [])
      else None)"

definition check_for_stock_items_and_warehouse :: "asset_repair \<Rightarrow> error option" where
  "check_for_stock_items_and_warehouse r =
     (if stock_items r = []
      then Some (ValidationError ''Please enter Stock Items consumed during the Repair.''
                   ''Missing Items'')
      else if \<not> truthy (warehouse r)
      then Some (ValidationError
                   ''Please enter Warehouse from which Stock Items consumed during the Repair were taken.''
                   ''Missing Warehouse'')
      else None)"

section \<open>Stock movement\<close>

definition decrease_stock_quantity :: "env \<Rightarrow> world \<Rightarrow> world" where
  "decrease_stock_quantity e w =
     (let r = repair w;
          rows = map (\<lambda>stock_item.
                        \<lparr>s_warehouse = warehouse r,
                         row_item_code = item_code stock_item,
                         qty = consumed_quantity stock_item,
                         basic_rate = valuation_rate stock_item,
                         row_serial_no = serial_no stock_item,
                         row_cost_center = cost_center r,
                         row_project = project r\<rparr>)
                     (stock_items r);
          w1 = emit (StockEntrySubmitted rows) w
      in emit (RepairDbSetStockEntry (Some (new_stock_entry_name e)))
           (w1\<lparr>repair := (repair w1)\<lparr>stock_entry := Some (new_stock_entry_name e)\<rparr>\<rparr>))"

section \<open>Ledger entries\<close>

definition get_gl_dict :: "env \<Rightarrow> asset_repair \<Rightarrow> (gl_entry \<Rightarrow> gl_entry) \<Rightarrow> gl_entry" where
  \<comment> \<open>Modelled from the spec: \<^verbatim>\<open>AccountsController.get_gl_dict\<close> is not under src. It fills a
      ledger line (account, debit/credit amount, cost center, voucher linkage) with the
      document's defaults, debit and credit being 0, and then takes every given field.
      The given fields are the update \<open>args\<close>.\<close>
  "get_gl_dict e r args =
     args \<lparr>account = None, debit = 0, debit_in_account_currency = 0,
           credit = 0, credit_in_account_currency = 0, against = None,
           voucher_type = ''Asset Repair'', voucher_no = name r,
           gl_cost_center = None, posting_date = None,
           against_voucher_type = None, against_voucher = None,
           gl_company = company r\<rparr>"

definition py_or :: "string option \<Rightarrow> string option \<Rightarrow> string option" where
  \<comment> \<open>\<^verbatim>\<open>a or b\<close> on link fields\<close>
  "py_or a b = (if truthy a then a else b)"

definition get_gl_entries_for_repair_cost ::
    "env \<Rightarrow> asset_repair \<Rightarrow> gl_entry list \<Rightarrow> string option \<Rightarrow> error + gl_entry list" where
  "get_gl_entries_for_repair_cost e r gl_entries fixed_asset_acc =
     (if flt (repair_cost r) \<le> 0 then Inr gl_entries
      else case purchase_invoice_items e (purchase_invoice r) of
             None \<Rightarrow> Inl DoesNotExistError
           | Some [] \<Rightarrow> Inl IndexError
           | Some (pi_expense_account # _) \<Rightarrow>
               Inr (gl_entries
                 @ [get_gl_dict e r (\<lambda>g. g\<lparr>account := fixed_asset_acc,
                       debit := repair_cost r,
                       debit_in_account_currency := repair_cost r,
                       against := pi_expense_account,
                       voucher_type := ''Asset Repair'',
                       voucher_no := name r,
                       gl_cost_center := cost_center r,
                       posting_date := Some (getdate e),
                       against_voucher_type := Some ''Purchase Invoice'',
                       against_voucher := purchase_invoice r,
                       gl_company := company r\<rparr>)]
                 @ [get_gl_dict e r (\<lambda>g. g\<lparr>account := pi_expense_account,
                       credit := repair_cost r,
                       credit_in_account_currency := repair_cost r,
                       against := fixed_asset_acc,
                       voucher_type := ''Asset Repair'',
                       voucher_no := name r,
                       gl_cost_center := cost_center r,
                       posting_date := Some (getdate e),
                       gl_company := company r\<rparr>)]))"

fun consumed_item_entries ::
    "env \<Rightarrow> asset_repair \<Rightarrow> string option \<Rightarrow> string option \<Rightarrow> gl_entry list
       \<Rightarrow> stock_entry_detail list \<Rightarrow> gl_entry list" where
  \<comment> \<open>the loop \<^verbatim>\<open>for item in stock_entry.items\<close> of \<^verbatim>\<open>get_gl_entries_for_consumed_items\<close>\<close>
  "consumed_item_entries e r fixed_asset_acc default_expense_account gl_entries [] = gl_entries"
| "consumed_item_entries e r fixed_asset_acc default_expense_account gl_entries (item # rest) =
     (if flt (amount item) > 0
      then consumed_item_entries e r fixed_asset_acc default_expense_account
             (gl_entries
               @ [get_gl_dict e r (\<lambda>g. g\<lparr>
                     account := py_or (expense_account item) default_expense_account,
                     credit := amount item,
                     credit_in_account_currency := amount item,
                     against := fixed_asset_acc,
                     voucher_type := ''Asset Repair'',
                     voucher_no := name r,
                     gl_cost_center := cost_center r,
                     posting_date := Some (getdate e),
                     gl_company := company r\<rparr>)]
               @ [get_gl_dict e r (\<lambda>g. g\<lparr>
                     account := fixed_asset_acc,
                     debit := amount item,
                     debit_in_account_currency := amount item,
                     against := py_or (expense_account item) default_expense_account,
                     voucher_type := ''Asset Repair'',
                     voucher_no := name r,
                     gl_cost_center := cost_center r,
                     posting_date := Some (getdate e),
                     against_voucher_type := Some ''Stock Entry'',
                     against_voucher := stock_entry r,
                     gl_company := company r\<rparr>)])
             rest
      else consumed_item_entries e r fixed_asset_acc default_expense_account gl_entries rest)"

definition get_gl_entries_for_consumed_items ::
    "env \<Rightarrow> asset_repair \<Rightarrow> gl_entry list \<Rightarrow> string option \<Rightarrow> error + gl_entry list" where
  "get_gl_entries_for_consumed_items e r gl_entries fixed_asset_acc =
     (if \<not> (stock_consumption r \<and> stock_items r \<noteq> []) then Inr gl_entries
      else case stock_entry_items e (stock_entry r) of
             None \<Rightarrow> Inl DoesNotExistError
           | Some items \<Rightarrow>
               if \<not> is_perpetual_inventory_enabled e
               then (if \<not> truthy (company_default_expense_account e)
                     then Inl (ValidationError
                                 (''Please set default Expense Account in Company '' @ company r) [])
                     else Inr (consumed_item_entries e r fixed_asset_acc
                                 (company_default_expense_account e) gl_entries items))
               else Inr (consumed_item_entries e r fixed_asset_acc None gl_entries items))"

definition get_gl_entries :: "env \<Rightarrow> asset_repair \<Rightarrow> error + gl_entry list" where
  "get_gl_entries e r =
     (let gl_entries = [];
          fixed_asset_acc = fixed_asset_account e
      in case get_gl_entries_for_repair_cost e r gl_entries fixed_asset_acc of
           Inl err \<Rightarrow> Inl err
         | Inr gl_entries1 \<Rightarrow> get_gl_entries_for_consumed_items e r gl_entries1 fixed_asset_acc)"

definition make_gl_entries :: "env \<Rightarrow> bool \<Rightarrow> world \<Rightarrow> outcome" where
  "make_gl_entries e cancel w =
     (if flt (total_repair_cost (repair w)) > 0
      then case get_gl_entries e (repair w) of
             Inl err \<Rightarrow> (w, Some err)
           | Inr gl_entries \<Rightarrow> (emit (MakeGLEntries gl_entries cancel) w, None)
      else (w, None))"

section \<open>Depreciation schedule\<close>

definition set_flag_increase_in_asset_life :: "bool \<Rightarrow> asset \<Rightarrow> asset" where
  \<comment> \<open>\<^verbatim>\<open>asset.flags.increase_in_asset_life = b\<close>\<close>
  "set_flag_increase_in_asset_life b a = a\<lparr>flags := (flags a)\<lparr>flag_increase_in_asset_life := Some b\<rparr>\<rparr>"

definition calculate_last_schedule_date ::
    "env \<Rightarrow> asset \<Rightarrow> finance_book_row \<Rightarrow> int \<Rightarrow> (asset \<times> finance_book_row) \<times> error option" where
  "calculate_last_schedule_date e a row extra_months =
     (let a1 = set_flag_increase_in_asset_life True a;
          number_of_pending_depreciations =
            cint (total_number_of_depreciations row) - cint (of_int (number_of_depreciations_booked a1))
      in case get_depr_schedule e (asset_name a1) (finance_book row) of
           None \<Rightarrow> ((a1, row), Some TypeError)
         | Some [] \<Rightarrow> ((a1, row), Some IndexError)
         | Some (d # ds) \<Rightarrow>
             let last_schedule_date = last (d # ds);
                 new_to_date = add_months e last_schedule_date extra_months;
                 a2 = a1\<lparr>to_date := Some new_to_date\<rparr>;
                 schedule_date =
                   add_months e (depreciation_start_date row)
                     (number_of_pending_depreciations * cint (of_int (frequency_of_depreciation row)))
             in if date_less schedule_date new_to_date
                then ((a2, row\<lparr>total_number_of_depreciations :=
                                  total_number_of_depreciations row + 1\<rparr>), None)
                else ((a2, row), None))"

definition modify_depreciation_schedule_row ::
    "env \<Rightarrow> asset_repair \<Rightarrow> asset \<Rightarrow> finance_book_row \<Rightarrow> (asset \<times> finance_book_row) \<times> error option" where
  \<comment> \<open>the body of the loop of \<^verbatim>\<open>modify_depreciation_schedule\<close>, for one row\<close>
  "modify_depreciation_schedule_row e r a row =
     (if frequency_of_depreciation row = 0 then ((a, row), Some ZeroDivisionError)
      else
        let row1 = row\<lparr>total_number_of_depreciations :=
                         total_number_of_depreciations row
                           + of_int (increase_in_asset_life r) / of_int (frequency_of_depreciation row)\<rparr>;
            a1 = set_flag_increase_in_asset_life False a;
            extra_months = increase_in_asset_life r mod frequency_of_depreciation row1
        in if extra_months \<noteq> 0
           then calculate_last_schedule_date e a1 row1 extra_months
           else ((a1, row1), None))"

fun modify_depreciation_schedule_rows ::
    "env \<Rightarrow> asset_repair \<Rightarrow> asset \<Rightarrow> finance_book_row list
       \<Rightarrow> (asset \<times> finance_book_row list) \<times> error option" where
  "modify_depreciation_schedule_rows e r a [] = ((a, []), None)"
| "modify_depreciation_schedule_rows e r a (row # rest) =
     (case modify_depreciation_schedule_row e r a row of
        ((a1, row1), Some err) \<Rightarrow> ((a1, row1 # rest), Some err)
      | ((a1, row1), None) \<Rightarrow>
          (case modify_depreciation_schedule_rows e r a1 rest of
             ((a2, rest1), err) \<Rightarrow> ((a2, row1 # rest1), err)))"

definition modify_depreciation_schedule :: "env \<Rightarrow> asset_repair \<Rightarrow> asset \<Rightarrow> asset \<times> error option" where
  "modify_depreciation_schedule e r a =
     (case modify_depreciation_schedule_rows e r a (finance_books a) of
        ((a1, rows), err) \<Rightarrow> (a1\<lparr>finance_books := rows\<rparr>, err))"

definition calculate_last_schedule_date_before_modification ::
    "env \<Rightarrow> asset \<Rightarrow> finance_book_row \<Rightarrow> int \<Rightarrow> (asset \<times> finance_book_row) \<times> error option" where
  "calculate_last_schedule_date_before_modification e a row extra_months =
     (let a1 = set_flag_increase_in_asset_life True a;
          number_of_pending_depreciations =
            cint (total_number_of_depreciations row) - cint (of_int (number_of_depreciations_booked a1))
      in case get_depr_schedule e (asset_name a1) (finance_book row) of
           None \<Rightarrow> ((a1, row), Some TypeError)
         | Some [] \<Rightarrow> ((a1, row), Some IndexError)
         | Some (d # ds) \<Rightarrow>
             let last_schedule_date = last (d # ds);
                 new_to_date = add_months e last_schedule_date (- extra_months);
                 a2 = a1\<lparr>to_date := Some new_to_date\<rparr>;
                 schedule_date =
                   add_months e (depreciation_start_date row)
                     ((number_of_pending_depreciations - 1)
                        * cint (of_int (frequency_of_depreciation row)))
             in if date_less new_to_date schedule_date
                then ((a2, row\<lparr>total_number_of_depreciations :=
                                  total_number_of_depreciations row - 1\<rparr>), None)
                else ((a2, row), None))"

definition revert_depreciation_schedule_on_cancellation_row ::
    "env \<Rightarrow> asset_repair \<Rightarrow> asset \<Rightarrow> finance_book_row \<Rightarrow> (asset \<times> finance_book_row) \<times> error option" where
  \<comment> \<open>the body of the loop of \<^verbatim>\<open>revert_depreciation_schedule_on_cancellation\<close>, for one row\<close>
  "revert_depreciation_schedule_on_cancellation_row e r a row =
     (if frequency_of_depreciation row = 0 then ((a, row), Some ZeroDivisionError)
      else
        let row1 = row\<lparr>total_number_of_depreciations :=
                         total_number_of_depreciations row
                           - of_int (increase_in_asset_life r) / of_int (frequency_of_depreciation row)\<rparr>;
            a1 = set_flag_increase_in_asset_life False a;
            extra_months = increase_in_asset_life r mod frequency_of_depreciation row1
        in if extra_months \<noteq> 0
           then calculate_last_schedule_date_before_modification e a1 row1 extra_months
           else ((a1, row1), None))"

fun revert_depreciation_schedule_on_cancellation_rows ::
    "env \<Rightarrow> asset_repair \<Rightarrow> asset \<Rightarrow> finance_book_row list
       \<Rightarrow> (asset \<times> finance_book_row list) \<times> error option" where
  "revert_depreciation_schedule_on_cancellation_rows e r a [] = ((a, []), None)"
| "revert_depreciation_schedule_on_cancellation_rows e r a (row # rest) =
     (case revert_depreciation_schedule_on_cancellation_row e r a row of
        ((a1, row1), Some err) \<Rightarrow> ((a1, row1 # rest), Some err)
      | ((a1, row1), None) \<Rightarrow>
          (case revert_depreciation_schedule_on_cancellation_rows e r a1 rest of
             ((a2, rest1), err) \<Rightarrow> ((a2, row1 # rest1), err)))"

definition revert_depreciation_schedule_on_cancellation ::
    "env \<Rightarrow> asset_repair \<Rightarrow> asset \<Rightarrow> asset \<times> error option" where
  "revert_depreciation_schedule_on_cancellation e r a =
     (case revert_depreciation_schedule_on_cancellation_rows e r a (finance_books a) of
        ((a1, rows), err) \<Rightarrow> (a1\<lparr>finance_books := rows\<rparr>, err))"

fun update_expected_value_rows ::
    "env \<Rightarrow> asset \<Rightarrow> finance_book_row list
       \<Rightarrow> (finance_book_row list \<times> event list) \<times> error option" where
  \<comment> \<open>the loop of \<^verbatim>\<open>update_asset_expected_value_after_useful_life\<close>\<close>
  "update_expected_value_rows e a [] = (([], []), None)"
| "update_expected_value_rows e a (row # rest) =
     (if depreciation_method row = ''Written Down Value''
         \<or> depreciation_method row = ''Double Declining Balance''
      then case schedule_accumulated_depreciation e (asset_name a) (finance_book row) of
             None \<Rightarrow> ((row # rest, []), Some AttributeError)
           | Some [] \<Rightarrow> ((row # rest, []), Some ValueError)
           | Some (x # xs) \<Rightarrow>
               let accumulated_depreciation_after_full_schedule = fold max xs x;
                   asset_value_after_full_schedule =
                     flt_expected_value e
                       (flt (value_after_depreciation row)
                          - flt accumulated_depreciation_after_full_schedule);
                   row1 = row\<lparr>expected_value_after_useful_life := asset_value_after_full_schedule\<rparr>
               in (case update_expected_value_rows e a rest of
                     ((rest1, evs), err) \<Rightarrow>
                       ((row1 # rest1,
                         DeprScheduleDbSetExpectedValue (finance_book row)
                           asset_value_after_full_schedule # evs), err))
      else (case update_expected_value_rows e a rest of
              ((rest1, evs), err) \<Rightarrow> ((row # rest1, evs), err)))"

definition update_asset_expected_value_after_useful_life :: "env \<Rightarrow> world \<Rightarrow> outcome" where
  "update_asset_expected_value_after_useful_life e w =
     (case update_expected_value_rows e (asset_doc w) (finance_books (asset_doc w)) of
        ((rows, evs), err) \<Rightarrow>
          (w\<lparr>asset_doc := (asset_doc w)\<lparr>finance_books := rows\<rparr>, events := events w @ evs\<rparr>, err))"

section \<open>Submission\<close>

definition set_increase_in_asset_value_due_to_repair :: "bool \<Rightarrow> world \<Rightarrow> world" where
  \<comment> \<open>\<^verbatim>\<open>self.asset_doc.flags.increase_in_asset_value_due_to_repair = b\<close>\<close>
  "set_increase_in_asset_value_due_to_repair b w =
     w\<lparr>asset_doc := (asset_doc w)\<lparr>flags :=
          (flags (asset_doc w))\<lparr>increase_in_asset_value_due_to_repair := Some b\<rparr>\<rparr>\<rparr>"

definition set_ignore_validate_update_after_submit :: "world \<Rightarrow> world" where
  \<comment> \<open>\<^verbatim>\<open>self.asset_doc.flags.ignore_validate_update_after_submit = True\<close>\<close>
  "set_ignore_validate_update_after_submit w =
     w\<lparr>asset_doc := (asset_doc w)\<lparr>flags :=
          (flags (asset_doc w))\<lparr>ignore_validate_update_after_submit := Some True\<rparr>\<rparr>\<rparr>"

definition before_submit :: "env \<Rightarrow> world \<Rightarrow> outcome" where
  "before_submit e w =
     (case check_repair_status (repair w) of
        Some err \<Rightarrow> (w, Some err)
      | None \<Rightarrow>
          let w1 = set_increase_in_asset_value_due_to_repair False w
          in if stock_consumption (repair w1) \<or> capitalize_repair_cost (repair w1)
             then
               let w2 = set_increase_in_asset_value_due_to_repair True w1;
                   w3 = w2\<lparr>asset_doc := increase_asset_value (repair w2) (asset_doc w2)\<rparr>
               in then_do
                    (if stock_consumption (repair w3)
                     then (case check_for_stock_items_and_warehouse (repair w3) of
                             Some err \<Rightarrow> (w3, Some err)
                           | None \<Rightarrow> (decrease_stock_quantity e w3, None))
                     else (w3, None))
                    (\<lambda>w4. then_do
                       (if capitalize_repair_cost (repair w4)
                        then then_do (make_gl_entries e False w4)
                               (\<lambda>w5. if calculate_depreciation (asset_doc w5)
                                         \<and> increase_in_asset_life (repair w5) \<noteq> 0
                                      then (case modify_depreciation_schedule e (repair w5) (asset_doc w5) of
                                              (a, err) \<Rightarrow> (w5\<lparr>asset_doc := a\<rparr>, err))
                                      else (w5, None))
                        else (w4, None))
                       (\<lambda>w6. let w7 = set_ignore_validate_update_after_submit w6;
                                  w8 = emit MakeNewActiveDeprSchedulesAndCancelCurrentOnes w7
                              in then_do
                                   (if calculate_depreciation (asset_doc w8)
                                    then update_asset_expected_value_after_useful_life e w8
                                    else (w8, None))
                                   (\<lambda>w9. (emit AssetSave w9, None))))
             else (w1, None))"

section \<open>Downtime\<close>

definition py_round :: "rat \<Rightarrow> nat \<Rightarrow> rat" where
  \<comment> \<open>\<^verbatim>\<open>round(x, n)\<close> on the exact value: to the nearest multiple of \<open>10 ^ - n\<close>, a tie going
      to the even one. Python rounds the double nearest to \<open>x\<close>, so at an exact tie its
      result can be the other neighbour.\<close>
  "py_round x n = of_int (round_half_even (x * 10 ^ n)) / 10 ^ n"

definition time_diff_in_hours :: "int \<Rightarrow> int \<Rightarrow> rat" where
  \<comment> \<open>Modelled from the spec: \<^verbatim>\<open>frappe.utils.time_diff_in_hours\<close> is not under src. It is the
      time elapsed from its second argument to its first, in hours. A date-time is the
      number of seconds since a fixed epoch.\<close>
  "time_diff_in_hours end_date start_date = of_int (end_date - start_date) / 3600"

definition get_downtime :: "int \<Rightarrow> int \<Rightarrow> rat" where
  "get_downtime failure_date completion_date =
     (let downtime = time_diff_in_hours completion_date failure_date
      in py_round downtime 2)"

section \<open>Balanced ledger lines\<close>

fun pairs_balanced :: "gl_entry list \<Rightarrow> bool" where
  \<comment> \<open>the list is a sequence of pairs of ledger lines, each pair with equal debit and credit\<close>
  "pairs_balanced [] = True"
| "pairs_balanced [x] = False"
| "pairs_balanced (x # y # rest) =
     (debit x + debit y = credit x + credit y \<and> pairs_balanced rest)"

section \<open>Example data\<close>

definition calendar_add_months :: "date \<Rightarrow> int \<Rightarrow> date" where
  \<comment> \<open>a month shift on the calendar, the day clamped to the length of the target month;
      it stands for \<^verbatim>\<open>frappe.utils.add_months\<close> in the examples\<close>
  "calendar_add_months d n =
     (let t = year d * 12 + (month d - 1) + n;
          y = t div 12;
          m = t mod 12 + 1;
          leap = (y mod 400 = 0 \<or> (y mod 4 = 0 \<and> y mod 100 \<noteq> 0));
          len = (if m = 2 then (if leap then 29 else 28)
                 else if m = 4 \<or> m = 6 \<or> m = 9 \<or> m = 11 then 30 else 31)
      in \<lparr>year = y, month = m, day = min (day d) len\<rparr>)"

definition example_schedule :: "date list" where
  \<comment> \<open>ten yearly schedule dates, 2020 to 2029\<close>
  "example_schedule = map (\<lambda>y. \<lparr>year = y, month = 1, day = 1\<rparr>) [2020 ..< 2030]"

definition example_env :: env where
  "example_env =
     \<lparr>fixed_asset_account = Some ''Fixed Assets'',
      purchase_invoice_items = (\<lambda>n. if n = Some ''PINV-1'' then Some [Some ''Repairs''] else None),
      stock_entry_items =
        (\<lambda>n. if n = Some ''STE-1''
              then Some [\<lparr>amount = 30, expense_account = Some ''Stock Adjustment''\<rparr>,
                         \<lparr>amount = 0, expense_account = None\<rparr>]
              else None),
      is_perpetual_inventory_enabled = True,
      company_default_expense_account = None,
      getdate = \<lparr>year = 2024, month = 1, day = 15\<rparr>,
      get_depr_schedule = (\<lambda>a fb. Some example_schedule),
      add_months = calendar_add_months,
      schedule_accumulated_depreciation = (\<lambda>a fb. Some [100, 200]),
      flt_expected_value = (\<lambda>x. x),
      new_stock_entry_name = ''STE-1''\<rparr>"

definition example_row :: finance_book_row where
  "example_row =
     \<lparr>finance_book = ''Book'',
      depreciation_method = ''Straight Line'',
      value_after_depreciation = 1000,
      total_number_of_depreciations = 10,
      frequency_of_depreciation = 12,
      depreciation_start_date = \<lparr>year = 2020, month = 1, day = 1\<rparr>,
      expected_value_after_useful_life = 0\<rparr>"

definition example_asset :: asset where
  "example_asset =
     \<lparr>asset_name = ''ASSET-1'',
      calculate_depreciation = True,
      number_of_depreciations_booked = 0,
      finance_books = [example_row],
      to_date = None,
      flags = \<lparr>increase_in_asset_value_due_to_repair = None,
               flag_increase_in_asset_life = None,
               ignore_validate_update_after_submit = None\<rparr>\<rparr>"

definition example_repair :: asset_repair where
  "example_repair =
     \<lparr>name = ''ARP-1'',
      asset_link = ''ASSET-1'',
      company = ''C'',
      repair_status = ''Completed'',
      repair_cost = 100,
      total_repair_cost = 0,
      stock_consumption = True,
      capitalize_repair_cost = True,
      increase_in_asset_life = 14,
      stock_items = [\<lparr>item_code = ''Bolt'', valuation_rate = 15, consumed_quantity = 2,
                       total_value = 0, serial_no = []\<rparr>],
      warehouse = Some ''Stores'',
      purchase_invoice = Some ''PINV-1'',
      stock_entry = Some ''STE-1'',
      cost_center = None,
      project = None\<rparr>"

definition example_world :: world where
  "example_world = \<lparr>repair = example_repair, asset_doc = example_asset, events = []\<rparr>"

definition example_plain_world :: world where
  "example_plain_world =
     example_world\<lparr>repair := example_repair\<lparr>stock_consumption := False,
                                             capitalize_repair_cost := False\<rparr>\<rparr>"

definition example_pending_world :: world where
  "example_pending_world =
     example_world\<lparr>repair := example_repair\<lparr>repair_status := ''Pending'', stock_items := []\<rparr>\<rparr>"

definition example_no_items_world :: world where
  "example_no_items_world = example_world\<lparr>repair := example_repair\<lparr>stock_items := []\<rparr>\<rparr>"

definition example_no_warehouse_world :: world where
  "example_no_warehouse_world = example_world\<lparr>repair := example_repair\<lparr>warehouse := None\<rparr>\<rparr>"

definition example_float_asset :: asset where
  \<comment> \<open>one row whose value is the double written \<^verbatim>\<open>0.1\<close>\<close>
  "example_float_asset =
     example_asset\<lparr>finance_books :=
       [example_row\<lparr>value_after_depreciation := round_to_double (1 / 10)\<rparr>]\<rparr>"

definition example_float_repair :: asset_repair where
  \<comment> \<open>a capitalised repair cost of the double written \<^verbatim>\<open>0.2\<close>, no stock consumption\<close>
  "example_float_repair =
     example_repair\<lparr>stock_consumption := False, repair_cost := round_to_double (1 / 5)\<rparr>"

section \<open>Properties\<close>


lemma pairs_balanced_append:
  "pairs_balanced xs \<Longrightarrow> pairs_balanced (xs @ ys) = pairs_balanced ys"
  by (induction xs rule: pairs_balanced.induct) simp_all

lemma pairs_balanced_sums:
  "pairs_balanced xs \<Longrightarrow> sum_list (map debit xs) = sum_list (map credit xs)"
  by (induction xs rule: pairs_balanced.induct) simp_all

lemma consumed_item_entries_pairs:
  "pairs_balanced gl_entries \<Longrightarrow>
   pairs_balanced (consumed_item_entries e r fa dea gl_entries items)"
proof (induction items arbitrary: gl_entries)
  case Nil
  then show ?case by simp
next
  case (Cons item rest)
  show ?case
  proof (cases "flt (amount item) > 0")
    case True
    have "pairs_balanced (gl_entries
               @ [get_gl_dict e r (\<lambda>g. g\<lparr>
                     account := py_or (expense_account item) dea,
                     credit := amount item,
                     credit_in_account_currency := amount item,
                     against := fa,
                     voucher_type := ''Asset Repair'',
                     voucher_no := name r,
                     gl_cost_center := cost_center r,
                     posting_date := Some (getdate e),
                     gl_company := company r\<rparr>)]
               @ [get_gl_dict e r (\<lambda>g. g\<lparr>
                     account := fa,
                     debit := amount item,
                     debit_in_account_currency := amount item,
                     against := py_or (expense_account item) dea,
                     voucher_type := ''Asset Repair'',
                     voucher_no := name r,
                     gl_cost_center := cost_center r,
                     posting_date := Some (getdate e),
                     against_voucher_type := Some ''Stock Entry'',
                     against_voucher := stock_entry r,
                     gl_company := company r\<rparr>)])"
      using Cons.prems by (simp add: pairs_balanced_append get_gl_dict_def)
    then show ?thesis using True Cons.IH by simp
  next
    case False
    then show ?thesis using Cons by simp
  qed
qed

lemma repair_cost_entries_pairs:
  "get_gl_entries_for_repair_cost e r [] fa = Inr es \<Longrightarrow> pairs_balanced es"
  by (auto simp: get_gl_entries_for_repair_cost_def get_gl_dict_def
           split: if_splits option.splits list.splits)

lemma consumed_items_pairs:
  "pairs_balanced gl \<Longrightarrow> get_gl_entries_for_consumed_items e r gl fa = Inr es \<Longrightarrow> pairs_balanced es"
  by (auto simp: get_gl_entries_for_consumed_items_def consumed_item_entries_pairs
           split: if_splits option.splits)

lemma then_do_no_error:
  "snd r \<noteq> Some x \<Longrightarrow> (\<And>w. snd (f w) \<noteq> Some x) \<Longrightarrow> snd (then_do r f) \<noteq> Some x"
  by (cases r) (auto simp: then_do_def split: option.splits)

lemma then_do_None [simp]: "then_do (w, None) f = f w"
  by (simp add: then_do_def)

lemma then_do_Some [simp]: "then_do (w, Some err) f = (w, Some err)"
  by (simp add: then_do_def)

lemma get_gl_entries_no_validation_error:
  "\<not> stock_consumption r \<Longrightarrow> get_gl_entries e r \<noteq> Inl (ValidationError m t)"
  by (auto simp: get_gl_entries_def get_gl_entries_for_repair_cost_def
        get_gl_entries_for_consumed_items_def Let_def
        split: if_splits option.splits list.splits sum.splits)

lemma make_gl_entries_no_validation_error:
  "\<not> stock_consumption (repair w) \<Longrightarrow> snd (make_gl_entries e c w) \<noteq> Some (ValidationError m t)"
  using get_gl_entries_no_validation_error [of "repair w" e m t]
  by (auto simp: make_gl_entries_def split: sum.splits)

lemma calculate_last_schedule_date_no_validation_error:
  "snd (calculate_last_schedule_date e a row x) \<noteq> Some (ValidationError m t)"
  by (simp add: calculate_last_schedule_date_def Let_def split: option.splits list.splits)

lemma modify_row_no_validation_error:
  "snd (modify_depreciation_schedule_row e r a row) \<noteq> Some (ValidationError m t)"
  by (simp add: modify_depreciation_schedule_row_def Let_def
        calculate_last_schedule_date_no_validation_error)

lemma modify_rows_no_validation_error:
  "snd (modify_depreciation_schedule_rows e r a rows) \<noteq> Some (ValidationError m t)"
proof (induction rows arbitrary: a)
  case Nil
  then show ?case by simp
next
  case (Cons row rest)
  obtain a1 row1 err1 where s1: "modify_depreciation_schedule_row e r a row = ((a1, row1), err1)"
    by (metis surj_pair)
  have e1: "err1 \<noteq> Some (ValidationError m t)"
    using modify_row_no_validation_error [of e r a row m t] s1 by simp
  obtain a2 rest1 err2 where s2: "modify_depreciation_schedule_rows e r a1 rest = ((a2, rest1), err2)"
    by (metis surj_pair)
  have e2: "err2 \<noteq> Some (ValidationError m t)"
    using Cons.IH [of a1] s2 by simp
  show ?case using s1 s2 e1 e2 by (cases err1) simp_all
qed

lemma modify_no_validation_error:
  "snd (modify_depreciation_schedule e r a) \<noteq> Some (ValidationError m t)"
  using modify_rows_no_validation_error [of e r a "finance_books a" m t]
  by (auto simp: modify_depreciation_schedule_def split: prod.splits)

lemma update_rows_no_validation_error:
  "snd (update_expected_value_rows e a rows) \<noteq> Some (ValidationError m t)"
proof (induction rows)
  case Nil
  then show ?case by simp
next
  case (Cons row rest)
  then show ?case
    by (auto simp: Let_def split: prod.splits option.splits list.splits)
qed

lemma update_no_validation_error:
  "snd (update_asset_expected_value_after_useful_life e w) \<noteq> Some (ValidationError m t)"
  using update_rows_no_validation_error [of e "asset_doc w" "finance_books (asset_doc w)" m t]
  by (auto simp: update_asset_expected_value_after_useful_life_def split: prod.splits)

lemma before_submit_tail_no_validation_error:
  "snd (let w7 = set_ignore_validate_update_after_submit w6;
            w8 = emit MakeNewActiveDeprSchedulesAndCancelCurrentOnes w7
        in then_do
             (if calculate_depreciation (asset_doc w8)
              then update_asset_expected_value_after_useful_life e w8
              else (w8, None))
             (\<lambda>w9. (emit AssetSave w9, None))) \<noteq> Some (ValidationError m t)"
  unfolding Let_def
  by (rule then_do_no_error) (simp_all add: update_no_validation_error)

lemma before_submit_no_stock_validation_error:
  assumes "repair_status (repair w) \<noteq> ''Pending''" and "\<not> stock_consumption (repair w)"
  shows "snd (before_submit e w) \<noteq> Some (ValidationError m t)"
proof (cases "capitalize_repair_cost (repair w)")
  case False
  with assms show ?thesis
    by (simp add: before_submit_def check_repair_status_def Let_def
          set_increase_in_asset_value_due_to_repair_def)
next
  case True
  let ?w3 = "(set_increase_in_asset_value_due_to_repair True
                (set_increase_in_asset_value_due_to_repair False w))
             \<lparr>asset_doc := increase_asset_value (repair w)
                 (asset_doc (set_increase_in_asset_value_due_to_repair True
                    (set_increase_in_asset_value_due_to_repair False w)))\<rparr>"
  have r3: "repair ?w3 = repair w"
    by (simp add: set_increase_in_asset_value_due_to_repair_def)
  have bs: "before_submit e w =
      then_do
        (then_do (make_gl_entries e False ?w3)
           (\<lambda>w5. if calculate_depreciation (asset_doc w5) \<and> increase_in_asset_life (repair w5) \<noteq> 0
                  then (case modify_depreciation_schedule e (repair w5) (asset_doc w5) of
                          (a, err) \<Rightarrow> (w5\<lparr>asset_doc := a\<rparr>, err))
                  else (w5, None)))
        (\<lambda>w6. let w7 = set_ignore_validate_update_after_submit w6;
                   w8 = emit MakeNewActiveDeprSchedulesAndCancelCurrentOnes w7
               in then_do
                    (if calculate_depreciation (asset_doc w8)
                     then update_asset_expected_value_after_useful_life e w8
                     else (w8, None))
                    (\<lambda>w9. (emit AssetSave w9, None)))"
    using assms True
    by (simp add: before_submit_def check_repair_status_def Let_def
          set_increase_in_asset_value_due_to_repair_def)
  have m: "snd (make_gl_entries e False ?w3) \<noteq> Some (ValidationError m t)"
    by (rule make_gl_entries_no_validation_error) (simp add: r3 assms)
  have md: "snd (if calculate_depreciation (asset_doc w5) \<and> increase_in_asset_life (repair w5) \<noteq> 0
                  then (case modify_depreciation_schedule e (repair w5) (asset_doc w5) of
                          (a, err) \<Rightarrow> (w5\<lparr>asset_doc := a\<rparr>, err))
                  else (w5, None)) \<noteq> Some (ValidationError m t)" for w5
    using modify_no_validation_error [of e "repair w5" "asset_doc w5" m t]
    by (auto split: prod.splits)
  show ?thesis
    unfolding bs
    by (intro then_do_no_error m md before_submit_tail_no_validation_error)
qed

lemma round_half_even_nonpos: "x < 0 \<Longrightarrow> round_half_even x \<le> 0"
proof -
  assume "x < 0"
  then have "\<lfloor>x\<rfloor> \<le> -1" by (simp add: floor_le_iff)
  then show ?thesis by (simp add: round_half_even_def Let_def)
qed

lemma round_half_even_neg: "x < - (1 / 2) \<Longrightarrow> round_half_even x < 0"
proof -
  assume a: "x < - (1 / 2)"
  then have f: "\<lfloor>x\<rfloor> \<le> -1" by (simp add: floor_le_iff)
  show ?thesis
  proof (cases "\<lfloor>x\<rfloor> = -1")
    case True
    then have "x - of_int \<lfloor>x\<rfloor> < 1 / 2" using a by simp
    then show ?thesis using True by (simp add: round_half_even_def Let_def)
  next
    case False
    then have "\<lfloor>x\<rfloor> \<le> -2" using f by linarith
    then show ?thesis by (simp add: round_half_even_def Let_def)
  qed
qed

lemma round_half_even_zero: "- (1 / 2) < x \<Longrightarrow> x < 0 \<Longrightarrow> round_half_even x = 0"
proof -
  assume a: "- (1 / 2) < x" and b: "x < 0"
  have "\<lfloor>x\<rfloor> = -1" using a b by (simp add: floor_eq_iff) 
  moreover then have "1 / 2 < x - of_int \<lfloor>x\<rfloor>" using a by simp
  ultimately show ?thesis by (simp add: round_half_even_def Let_def)
qed

lemma float_round_trip_row:
  assumes "is_double v" and "is_double (v + t)"
  shows "float_sub (float_add v t) t = v"
proof -
  have "float_add v t = v + t" using assms(2) by (simp add: float_add_def is_double_def)
  then show ?thesis using assms(1) by (simp add: float_sub_def is_double_def)
qed

lemma float_round_trip_row_capitalized:
  assumes "is_double v" and "is_double (v + t)" and "is_double (v + t + c)" and "is_double (v + c)"
  shows "float_sub (float_sub (float_add (float_add v t) c) t) c = v"
proof -
  have 1: "float_add v t = v + t" using assms(2) by (simp add: float_add_def is_double_def)
  have 2: "float_add (v + t) c = v + t + c" using assms(3) by (simp add: float_add_def is_double_def)
  have "v + t + c - t = v + c" by simp
  then have 3: "float_sub (v + t + c) t = v + c"
    using assms(4) by (simp add: float_sub_def is_double_def)
  have 4: "float_sub (v + c) c = v" using assms(1) by (simp add: float_sub_def is_double_def)
  show ?thesis by (simp add: 1 2 3 4)
qed

text \<open>
  C3 (as stated). The claim promises that \<open>increase_asset_value\<close> followed by
  \<open>decrease_asset_value\<close> restores \<open>value_after_depreciation\<close> for every asset and every
  repair record. The amounts are floats: a row worth \<^verbatim>\<open>0.1\<close> with a capitalised repair cost
  of \<^verbatim>\<open>0.2\<close> becomes \<^verbatim>\<open>0.30000000000000004\<close> and comes back as \<^verbatim>\<open>0.10000000000000003\<close>.
\<close>

theorem increase_then_decrease_asset_value_counterexample:
  "map value_after_depreciation (finance_books example_float_asset)
     = [3602879701896397 / 36028797018963968] \<and>
   repair_cost example_float_repair = 3602879701896397 / 18014398509481984 \<and>
   capitalize_repair_cost example_float_repair \<and>
   calculate_depreciation example_float_asset \<and>
   map value_after_depreciation
     (finance_books (increase_asset_value example_float_repair example_float_asset))
     = [1351079888211149 / 4503599627370496] \<and>
   map value_after_depreciation
     (finance_books (decrease_asset_value example_float_repair
                       (increase_asset_value example_float_repair example_float_asset)))
     = [1801439850948199 / 18014398509481984] \<and>
   map value_after_depreciation
     (finance_books (decrease_asset_value example_float_repair
                       (increase_asset_value example_float_repair example_float_asset)))
     \<noteq> map value_after_depreciation (finance_books example_float_asset)"
  by code_simp

text \<open>
  C3 (amended). For every asset and every repair record on which no floating-point addition
  or subtraction of the round trip rounds (the running stock total and, for each finance
  book row, the value plus the stock total, that sum plus the repair cost, and the value
  plus the repair cost, the last two when the repair cost is capitalised, are finite
  doubles), \<open>increase_asset_value\<close> followed by \<open>decrease_asset_value\<close> with the same repair
  record gives back the asset as it was: the \<open>value_after_depreciation\<close> of every finance
  book row is restored.
\<close>

theorem increase_then_decrease_asset_value_exact:
  assumes "adds_without_rounding r a"
  shows "decrease_asset_value r (increase_asset_value r a) = a \<and>
         map value_after_depreciation
           (finance_books (decrease_asset_value r (increase_asset_value r a)))
           = map value_after_depreciation (finance_books a)"
proof -
  have rows: "\<And>row. row \<in> set (finance_books a) \<Longrightarrow>
      is_double (value_after_depreciation row) \<and>
      is_double (value_after_depreciation row + get_total_value_of_stock_consumed r) \<and>
      (capitalize_repair_cost r \<longrightarrow>
         is_double (value_after_depreciation row + get_total_value_of_stock_consumed r + repair_cost r)
         \<and> is_double (value_after_depreciation row + repair_cost r))"
    using assms by (auto simp: adds_without_rounding_def list_all_iff Let_def split: if_splits)
  have "decrease_asset_value r (increase_asset_value r a) = a"
  proof (cases "calculate_depreciation a")
    case False
    then show ?thesis by (simp add: decrease_asset_value_def increase_asset_value_def)
  next
    case True
    show ?thesis
    proof (cases "capitalize_repair_cost r")
      case c: True
      have "map (\<lambda>row. row\<lparr>value_after_depreciation :=
               float_sub (float_sub (float_add (float_add (value_after_depreciation row)
                 (get_total_value_of_stock_consumed r)) (repair_cost r))
                 (get_total_value_of_stock_consumed r)) (repair_cost r)\<rparr>) (finance_books a)
            = finance_books a"
        by (rule map_idI) (simp add: rows c float_round_trip_row_capitalized)
      then show ?thesis using True c
        by (simp add: decrease_asset_value_def increase_asset_value_def Let_def o_def)
    next
      case c: False
      have "map (\<lambda>row. row\<lparr>value_after_depreciation :=
               float_sub (float_add (value_after_depreciation row)
                 (get_total_value_of_stock_consumed r))
                 (get_total_value_of_stock_consumed r)\<rparr>) (finance_books a)
            = finance_books a"
        by (rule map_idI) (simp add: rows float_round_trip_row)
      then show ?thesis using True c
        by (simp add: decrease_asset_value_def increase_asset_value_def Let_def o_def)
    qed
  qed
  then show ?thesis by simp
qed

theorem increase_then_decrease_asset_value_exact_witness:
  "adds_without_rounding (set_stock_items_cost example_repair) example_asset \<and>
   get_total_value_of_stock_consumed (set_stock_items_cost example_repair) = 30 \<and>
   repair_cost (set_stock_items_cost example_repair) = 100 \<and>
   map value_after_depreciation
     (finance_books (increase_asset_value (set_stock_items_cost example_repair) example_asset))
     = [1130] \<and>
   decrease_asset_value (set_stock_items_cost example_repair)
     (increase_asset_value (set_stock_items_cost example_repair) example_asset) = example_asset"
proof -
  have h: "adds_without_rounding (set_stock_items_cost example_repair) example_asset"
    by code_simp
  have t: "get_total_value_of_stock_consumed (set_stock_items_cost example_repair) = 30"
    by code_simp
  have c: "repair_cost (set_stock_items_cost example_repair) = 100"
    by code_simp
  have i: "map value_after_depreciation
     (finance_books (increase_asset_value (set_stock_items_cost example_repair) example_asset))
     = [1130]"
    by code_simp
  from increase_then_decrease_asset_value_exact [OF h] h t c i show ?thesis by simp
qed

text \<open>
  C2. Whenever \<open>get_gl_entries\<close> succeeds, the ledger lines it returns have total debit equal
  to total credit. The list is a sequence of balanced pairs: the debit/credit pair of the
  repair cost, then a credit/debit pair of the same amount for each consumed item.
\<close>

theorem get_gl_entries_balanced:
  assumes "get_gl_entries e r = Inr gl_entries"
  shows "sum_list (map debit gl_entries) = sum_list (map credit gl_entries)
         \<and> pairs_balanced gl_entries"
proof -
  from assms obtain es where
    a: "get_gl_entries_for_repair_cost e r [] (fixed_asset_account e) = Inr es" and
    b: "get_gl_entries_for_consumed_items e r es (fixed_asset_account e) = Inr gl_entries"
    by (auto simp: get_gl_entries_def Let_def split: sum.splits)
  have "pairs_balanced gl_entries"
    using repair_cost_entries_pairs [OF a] b by (rule consumed_items_pairs)
  then show ?thesis by (simp add: pairs_balanced_sums)
qed

theorem get_gl_entries_balanced_witness:
  "\<not> isl (get_gl_entries example_env example_repair) \<and>
   sum_list (map debit (projr (get_gl_entries example_env example_repair))) = 130 \<and>
   sum_list (map credit (projr (get_gl_entries example_env example_repair))) = 130 \<and>
   pairs_balanced (projr (get_gl_entries example_env example_repair))"
proof -
  have nl: "\<not> isl (get_gl_entries example_env example_repair)"
    by code_simp
  then have ev: "get_gl_entries example_env example_repair
              = Inr (projr (get_gl_entries example_env example_repair))"
    by simp
  have d: "sum_list (map debit (projr (get_gl_entries example_env example_repair))) = 130"
    by code_simp
  from get_gl_entries_balanced [OF ev] d nl show ?thesis by simp
qed


text \<open>
  C9. For an asset whose \<open>calculate_depreciation\<close> flag is false, \<open>increase_asset_value\<close> and
  \<open>decrease_asset_value\<close> leave the asset, and so the \<open>value_after_depreciation\<close> of every
  finance book row, unchanged, whatever the repair cost, the capitalisation flag and the
  value of the stock consumed.
\<close>

theorem asset_value_unchanged_without_depreciation:
  "\<not> calculate_depreciation a \<Longrightarrow>
     increase_asset_value r a = a \<and> decrease_asset_value r a = a"
  by (simp add: increase_asset_value_def decrease_asset_value_def)

theorem asset_value_unchanged_without_depreciation_witness:
  "\<not> calculate_depreciation (example_asset\<lparr>calculate_depreciation := False\<rparr>) \<and>
   increase_asset_value example_repair (example_asset\<lparr>calculate_depreciation := False\<rparr>)
     = example_asset\<lparr>calculate_depreciation := False\<rparr> \<and>
   decrease_asset_value example_repair (example_asset\<lparr>calculate_depreciation := False\<rparr>)
     = example_asset\<lparr>calculate_depreciation := False\<rparr> \<and>
   map value_after_depreciation
     (finance_books (increase_asset_value example_repair
                       (example_asset\<lparr>calculate_depreciation := False\<rparr>))) = [1000] \<and>
   get_total_value_of_stock_consumed example_repair + repair_cost example_repair \<noteq> 0"
proof -
  have h: "\<not> calculate_depreciation (example_asset\<lparr>calculate_depreciation := False\<rparr>)"
    by simp
  have v: "map value_after_depreciation (finance_books (example_asset\<lparr>calculate_depreciation := False\<rparr>)) = [1000]"
    by (simp add: example_asset_def example_row_def)
  have n: "get_total_value_of_stock_consumed example_repair + repair_cost example_repair \<noteq> 0"
    by (simp add: get_total_value_of_stock_consumed_def example_repair_def)
  from asset_value_unchanged_without_depreciation [OF h, of example_repair] h v n
  show ?thesis by simp
qed

text \<open>
  C4. For a repair record whose \<open>repair_status\<close> is Pending, \<open>before_submit\<close> raises the
  validation error "Please update Repair Status." and the state at that moment is the
  state it started from: no asset, stock or ledger change has been made or requested.
\<close>

theorem before_submit_pending_fails:
  "repair_status (repair w) = ''Pending'' \<Longrightarrow>
     before_submit e w = (w, Some (ValidationError ''Please update Repair Status.'' []))"
  by (simp add: before_submit_def check_repair_status_def)

theorem before_submit_pending_fails_witness:
  "repair_status (repair (example_world\<lparr>repair := example_repair\<lparr>repair_status := ''Pending''\<rparr>\<rparr>))
     = ''Pending'' \<and>
   before_submit example_env (example_world\<lparr>repair := example_repair\<lparr>repair_status := ''Pending''\<rparr>\<rparr>)
     = (example_world\<lparr>repair := example_repair\<lparr>repair_status := ''Pending''\<rparr>\<rparr>,
        Some (ValidationError ''Please update Repair Status.'' []))"
proof -
  have h: "repair_status (repair (example_world\<lparr>repair := example_repair\<lparr>repair_status := ''Pending''\<rparr>\<rparr>))
     = ''Pending''" by simp
  from before_submit_pending_fails [OF h, of example_env] h show ?thesis by simp
qed

text \<open>
  C8. For a repair record with neither \<open>stock_consumption\<close> nor \<open>capitalize_repair_cost\<close>
  set, once the repair-status check has passed, \<open>before_submit\<close> returns normally having only
  set the asset's flag \<open>increase_in_asset_value_due_to_repair\<close> to False: the finance book rows
  are unchanged, and no stock entry, ledger posting, schedule renewal or save of the Asset is
  requested (the events are as before).
\<close>

theorem before_submit_without_flags:
  assumes "repair_status (repair w) \<noteq> ''Pending''"
      and "\<not> stock_consumption (repair w)"
      and "\<not> capitalize_repair_cost (repair w)"
  shows "before_submit e w = (set_increase_in_asset_value_due_to_repair False w, None)
         \<and> finance_books (asset_doc (fst (before_submit e w))) = finance_books (asset_doc w)
         \<and> to_date (asset_doc (fst (before_submit e w))) = to_date (asset_doc w)
         \<and> events (fst (before_submit e w)) = events w
         \<and> repair (fst (before_submit e w)) = repair w"
  using assms
  by (simp add: before_submit_def check_repair_status_def Let_def
        set_increase_in_asset_value_due_to_repair_def)

theorem before_submit_without_flags_witness:
  "repair_status (repair example_plain_world) \<noteq> ''Pending'' \<and>
   \<not> stock_consumption (repair example_plain_world) \<and>
   \<not> capitalize_repair_cost (repair example_plain_world) \<and>
   snd (before_submit example_env example_plain_world) = None \<and>
   finance_books (asset_doc (fst (before_submit example_env example_plain_world))) = [example_row] \<and>
   events (fst (before_submit example_env example_plain_world)) = []"
proof -
  have h1: "repair_status (repair example_plain_world) \<noteq> ''Pending''"
    by (simp add: example_plain_world_def example_repair_def)
  have h2: "\<not> stock_consumption (repair example_plain_world)"
    by (simp add: example_plain_world_def)
  have h3: "\<not> capitalize_repair_cost (repair example_plain_world)"
    by (simp add: example_plain_world_def)
  have f: "finance_books (asset_doc example_plain_world) = [example_row]"
    by (simp add: example_plain_world_def example_world_def example_asset_def)
  have ev: "events example_plain_world = []"
    by (simp add: example_plain_world_def example_world_def)
  note t = before_submit_without_flags [OF h1 h2 h3, of example_env]
  have a: "snd (before_submit example_env example_plain_world) = None"
    using t [THEN conjunct1] by simp
  have b: "finance_books (asset_doc (fst (before_submit example_env example_plain_world))) = [example_row]"
    using t [THEN conjunct2, THEN conjunct1] f by simp
  have c: "events (fst (before_submit example_env example_plain_world)) = []"
    using t [THEN conjunct2, THEN conjunct2, THEN conjunct2, THEN conjunct1] ev by simp
  from h1 h2 h3 a b c show ?thesis by simp
qed

text \<open>
  C7. The remainder correction. Where the active schedule of the row has a last date, the
  correction on submit returns normally and adds 1 to \<open>total_number_of_depreciations\<close>
  exactly when that last date shifted by the remainder months is later than the natural date,
  start date + pending depreciations * frequency; the correction on cancellation subtracts 1
  exactly when the last date shifted back by the remainder months is earlier than its natural
  date, start date + (pending depreciations - 1) * frequency. Pending depreciations are the
  truncated total less the number booked. The loop bodies of \<open>modify_depreciation_schedule\<close>
  and \<open>revert_depreciation_schedule_on_cancellation\<close> run the correction, with the remainder
  \<open>increase_in_asset_life mod frequency_of_depreciation\<close>, exactly when that remainder is not 0.
\<close>

theorem remainder_correction:
  assumes "get_depr_schedule e (asset_name a) (finance_book row) = Some ds" and "ds \<noteq> []"
  shows
   "snd (calculate_last_schedule_date e a row extra_months) = None \<and>
    total_number_of_depreciations (snd (fst (calculate_last_schedule_date e a row extra_months)))
      = total_number_of_depreciations row
        + (if date_less
                (add_months e (depreciation_start_date row)
                   ((cint (total_number_of_depreciations row)
                       - number_of_depreciations_booked a) * frequency_of_depreciation row))
                (add_months e (last ds) extra_months)
           then 1 else 0) \<and>
    snd (calculate_last_schedule_date_before_modification e a row extra_months) = None \<and>
    total_number_of_depreciations
        (snd (fst (calculate_last_schedule_date_before_modification e a row extra_months)))
      = total_number_of_depreciations row
        - (if date_less
                (add_months e (last ds) (- extra_months))
                (add_months e (depreciation_start_date row)
                   ((cint (total_number_of_depreciations row)
                       - number_of_depreciations_booked a - 1) * frequency_of_depreciation row))
           then 1 else 0) \<and>
    (frequency_of_depreciation row \<noteq> 0
       \<and> increase_in_asset_life r mod frequency_of_depreciation row \<noteq> 0 \<longrightarrow>
     modify_depreciation_schedule_row e r a row
       = calculate_last_schedule_date e (set_flag_increase_in_asset_life False a)
           (row\<lparr>total_number_of_depreciations :=
                  total_number_of_depreciations row
                    + of_int (increase_in_asset_life r) / of_int (frequency_of_depreciation row)\<rparr>)
           (increase_in_asset_life r mod frequency_of_depreciation row) \<and>
     revert_depreciation_schedule_on_cancellation_row e r a row
       = calculate_last_schedule_date_before_modification e (set_flag_increase_in_asset_life False a)
           (row\<lparr>total_number_of_depreciations :=
                  total_number_of_depreciations row
                    - of_int (increase_in_asset_life r) / of_int (frequency_of_depreciation row)\<rparr>)
           (increase_in_asset_life r mod frequency_of_depreciation row)) \<and>
    (frequency_of_depreciation row \<noteq> 0
       \<and> increase_in_asset_life r mod frequency_of_depreciation row = 0 \<longrightarrow>
     total_number_of_depreciations (snd (fst (modify_depreciation_schedule_row e r a row)))
       = total_number_of_depreciations row
           + of_int (increase_in_asset_life r) / of_int (frequency_of_depreciation row) \<and>
     total_number_of_depreciations (snd (fst (revert_depreciation_schedule_on_cancellation_row e r a row)))
       = total_number_of_depreciations row
           - of_int (increase_in_asset_life r) / of_int (frequency_of_depreciation row))"
proof -
  from assms obtain d ds' where ds: "ds = d # ds'" by (cases ds) auto
  have c: "cint (of_int k) = k" for k by (simp add: cint_def)
  show ?thesis
    using assms(1) unfolding ds
    by (simp add: calculate_last_schedule_date_def
          calculate_last_schedule_date_before_modification_def
          modify_depreciation_schedule_row_def
          revert_depreciation_schedule_on_cancellation_row_def
          set_flag_increase_in_asset_life_def Let_def c del: last.simps)
qed


theorem remainder_correction_witness:
  "get_depr_schedule example_env (asset_name example_asset) (finance_book example_row)
     = Some example_schedule \<and> example_schedule \<noteq> [] \<and>
   frequency_of_depreciation example_row \<noteq> 0 \<and>
   increase_in_asset_life example_repair mod frequency_of_depreciation example_row \<noteq> 0 \<and>
   last example_schedule = \<lparr>year = 2029, month = 1, day = 1\<rparr> \<and>
   total_number_of_depreciations
     (snd (fst (calculate_last_schedule_date example_env example_asset example_row 14))) = 11 \<and>
   total_number_of_depreciations
     (snd (fst (calculate_last_schedule_date example_env example_asset example_row 2))) = 10 \<and>
   total_number_of_depreciations
     (snd (fst (calculate_last_schedule_date_before_modification example_env example_asset
                  example_row 2))) = 9 \<and>
   modify_depreciation_schedule_row example_env example_repair example_asset example_row
     = calculate_last_schedule_date example_env
         (set_flag_increase_in_asset_life False example_asset)
         (example_row\<lparr>total_number_of_depreciations := 67 / 6\<rparr>) 2 \<and>
   increase_in_asset_life (example_repair\<lparr>increase_in_asset_life := 24\<rparr>)
     mod frequency_of_depreciation example_row = 0 \<and>
   total_number_of_depreciations
     (snd (fst (modify_depreciation_schedule_row example_env
                  (example_repair\<lparr>increase_in_asset_life := 24\<rparr>) example_asset example_row)))
     = 12"
proof -
  have h1: "get_depr_schedule example_env (asset_name example_asset) (finance_book example_row)
     = Some example_schedule" by (simp add: example_env_def)
  have h2: "example_schedule \<noteq> []" by (simp add: example_schedule_def)
  have h3: "frequency_of_depreciation example_row \<noteq> 0" by (simp add: example_row_def)
  have h4: "increase_in_asset_life example_repair mod frequency_of_depreciation example_row \<noteq> 0"
    by (simp add: example_row_def example_repair_def)
  have l: "last example_schedule = \<lparr>year = 2029, month = 1, day = 1\<rparr>"
    by code_simp
  have am: "add_months example_env = calendar_add_months" by (simp add: example_env_def)
  have c10: "cint 10 = 10"
    by (simp add: cint_def)
  have bk: "number_of_depreciations_booked example_asset = 0" by (simp add: example_asset_def)
  have fr: "frequency_of_depreciation example_row = 12" by (simp add: example_row_def)
  have st: "depreciation_start_date example_row = \<lparr>year = 2020, month = 1, day = 1\<rparr>"
    by (simp add: example_row_def)
  have tn: "total_number_of_depreciations example_row = 10" by (simp add: example_row_def)
  have d1: "date_less (calendar_add_months \<lparr>year = 2020, month = 1, day = 1\<rparr> 120)
              (calendar_add_months \<lparr>year = 2029, month = 1, day = 1\<rparr> 14)"
    by (simp add: calendar_add_months_def date_less_def Let_def)
  have d2: "\<not> date_less (calendar_add_months \<lparr>year = 2020, month = 1, day = 1\<rparr> 120)
              (calendar_add_months \<lparr>year = 2029, month = 1, day = 1\<rparr> 2)"
    by (simp add: calendar_add_months_def date_less_def Let_def)
  have d3: "date_less (calendar_add_months \<lparr>year = 2029, month = 1, day = 1\<rparr> (- 2))
              (calendar_add_months \<lparr>year = 2020, month = 1, day = 1\<rparr> 108)"
    by (simp add: calendar_add_months_def date_less_def Let_def)
  note t14 = remainder_correction [OF h1 h2, of 14 example_repair]
  note t2 = remainder_correction [OF h1 h2, of 2 example_repair]
  have a: "total_number_of_depreciations
     (snd (fst (calculate_last_schedule_date example_env example_asset example_row 14))) = 11"
    using t14 [THEN conjunct2, THEN conjunct1] d1 by (simp add: l am c10 bk fr st tn)
  have b: "total_number_of_depreciations
     (snd (fst (calculate_last_schedule_date example_env example_asset example_row 2))) = 10"
    using t2 [THEN conjunct2, THEN conjunct1] d2 by (simp add: l am c10 bk fr st tn)
  have c: "total_number_of_depreciations
     (snd (fst (calculate_last_schedule_date_before_modification example_env example_asset
                  example_row 2))) = 9"
    using t2 [THEN conjunct2, THEN conjunct2, THEN conjunct2, THEN conjunct1] d3
    by (simp add: l am c10 bk fr st tn)
  have h5: "increase_in_asset_life (example_repair\<lparr>increase_in_asset_life := 24\<rparr>)
              mod frequency_of_depreciation example_row = 0"
    by (simp add: example_row_def)
  have lf: "increase_in_asset_life example_repair = 14" by (simp add: example_repair_def)
  have d: "modify_depreciation_schedule_row example_env example_repair example_asset example_row
     = calculate_last_schedule_date example_env
         (set_flag_increase_in_asset_life False example_asset)
         (example_row\<lparr>total_number_of_depreciations := 67 / 6\<rparr>) 2"
    using t2 [THEN conjunct2, THEN conjunct2, THEN conjunct2, THEN conjunct2, THEN conjunct1] h3 h4
    by (simp add: lf fr tn)
  have e: "total_number_of_depreciations
     (snd (fst (modify_depreciation_schedule_row example_env
                  (example_repair\<lparr>increase_in_asset_life := 24\<rparr>) example_asset example_row)))
     = 12"
    using remainder_correction [OF h1 h2, of 2 "example_repair\<lparr>increase_in_asset_life := 24\<rparr>",
            THEN conjunct2, THEN conjunct2, THEN conjunct2, THEN conjunct2, THEN conjunct2]
          h3 h5
    by (simp add: fr tn)
  from h1 h2 h3 h4 h5 l a b c d e show ?thesis by simp
qed

text \<open>
  C5 (as stated). The claim promises the missing-items error for every repair record with
  \<open>stock_consumption\<close> set and no stock lines. A record that is still Pending fails earlier,
  with the repair-status error.
\<close>

theorem stock_checks_on_submit_counterexample:
  "stock_consumption (repair example_pending_world) \<and>
   stock_items (repair example_pending_world) = [] \<and>
   snd (before_submit example_env example_pending_world)
     = Some (ValidationError ''Please update Repair Status.'' []) \<and>
   snd (before_submit example_env example_pending_world)
     \<noteq> Some (ValidationError ''Please enter Stock Items consumed during the Repair.''
               ''Missing Items'')"
  by (simp add: example_pending_world_def example_world_def example_repair_def
        before_submit_def check_repair_status_def)

text \<open>
  C5 (amended). For a repair record that is not Pending and has \<open>stock_consumption\<close> set,
  \<open>before_submit\<close> raises the missing-items error when there are no stock lines, and the
  missing-warehouse error when there are stock lines but no warehouse. When
  \<open>stock_consumption\<close> is not set, \<open>before_submit\<close> raises neither of these errors.
\<close>

theorem stock_checks_on_submit:
  "(repair_status (repair w) \<noteq> ''Pending'' \<and> stock_consumption (repair w)
      \<and> stock_items (repair w) = [] \<longrightarrow>
    snd (before_submit e w)
      = Some (ValidationError ''Please enter Stock Items consumed during the Repair.''
                ''Missing Items'')) \<and>
   (repair_status (repair w) \<noteq> ''Pending'' \<and> stock_consumption (repair w)
      \<and> stock_items (repair w) \<noteq> [] \<and> \<not> truthy (warehouse (repair w)) \<longrightarrow>
    snd (before_submit e w)
      = Some (ValidationError
                ''Please enter Warehouse from which Stock Items consumed during the Repair were taken.''
                ''Missing Warehouse'')) \<and>
   (\<not> stock_consumption (repair w) \<longrightarrow>
    snd (before_submit e w)
      \<noteq> Some (ValidationError ''Please enter Stock Items consumed during the Repair.''
                ''Missing Items'') \<and>
    snd (before_submit e w)
      \<noteq> Some (ValidationError
                ''Please enter Warehouse from which Stock Items consumed during the Repair were taken.''
                ''Missing Warehouse''))"
proof -
  have a: "snd (before_submit e w)
      = Some (ValidationError ''Please enter Stock Items consumed during the Repair.''
                ''Missing Items'')"
    if "repair_status (repair w) \<noteq> ''Pending''" "stock_consumption (repair w)"
       "stock_items (repair w) = []"
    using that
    by (simp add: before_submit_def check_repair_status_def Let_def
          check_for_stock_items_and_warehouse_def set_increase_in_asset_value_due_to_repair_def)
  have b: "snd (before_submit e w)
      = Some (ValidationError
                ''Please enter Warehouse from which Stock Items consumed during the Repair were taken.''
                ''Missing Warehouse'')"
    if "repair_status (repair w) \<noteq> ''Pending''" "stock_consumption (repair w)"
       "stock_items (repair w) \<noteq> []" "\<not> truthy (warehouse (repair w))"
    using that
    by (simp add: before_submit_def check_repair_status_def Let_def
          check_for_stock_items_and_warehouse_def set_increase_in_asset_value_due_to_repair_def)
  have c: "snd (before_submit e w) \<noteq> Some (ValidationError m t)"
    if "\<not> stock_consumption (repair w)" "t \<noteq> []" for m t
  proof (cases "repair_status (repair w) = ''Pending''")
    case True
    then show ?thesis using that
      by (simp add: before_submit_def check_repair_status_def)
  next
    case False
    then show ?thesis using that by (simp add: before_submit_no_stock_validation_error)
  qed
  from a b c show ?thesis by simp
qed

theorem stock_checks_on_submit_witness:
  "repair_status (repair example_no_items_world) \<noteq> ''Pending'' \<and>
   stock_consumption (repair example_no_items_world) \<and>
   stock_items (repair example_no_items_world) = [] \<and>
   snd (before_submit example_env example_no_items_world)
     = Some (ValidationError ''Please enter Stock Items consumed during the Repair.''
               ''Missing Items'') \<and>
   repair_status (repair example_no_warehouse_world) \<noteq> ''Pending'' \<and>
   stock_consumption (repair example_no_warehouse_world) \<and>
   stock_items (repair example_no_warehouse_world) \<noteq> [] \<and>
   \<not> truthy (warehouse (repair example_no_warehouse_world)) \<and>
   snd (before_submit example_env example_no_warehouse_world)
     = Some (ValidationError
               ''Please enter Warehouse from which Stock Items consumed during the Repair were taken.''
               ''Missing Warehouse'') \<and>
   \<not> stock_consumption (repair example_plain_world) \<and>
   snd (before_submit example_env example_plain_world)
     \<noteq> Some (ValidationError ''Please enter Stock Items consumed during the Repair.''
               ''Missing Items'')"
proof -
  have h1: "repair_status (repair example_no_items_world) \<noteq> ''Pending'' \<and>
            stock_consumption (repair example_no_items_world) \<and>
            stock_items (repair example_no_items_world) = []"
    by (simp add: example_no_items_world_def example_repair_def)
  have h2: "repair_status (repair example_no_warehouse_world) \<noteq> ''Pending'' \<and>
            stock_consumption (repair example_no_warehouse_world) \<and>
            stock_items (repair example_no_warehouse_world) \<noteq> [] \<and>
            \<not> truthy (warehouse (repair example_no_warehouse_world))"
    by (simp add: example_no_warehouse_world_def example_repair_def truthy_def)
  have h3: "\<not> stock_consumption (repair example_plain_world)"
    by (simp add: example_plain_world_def)
  from stock_checks_on_submit [of example_no_items_world example_env]
       stock_checks_on_submit [of example_no_warehouse_world example_env]
       stock_checks_on_submit [of example_plain_world example_env]
       h1 h2 h3
  show ?thesis by blast
qed

text \<open>
  C1. The claim is that \<open>total_number_of_depreciations\<close> changes by the floored quotient
  \<open>increase_in_asset_life div frequency_of_depreciation\<close> before the remainder correction
  (by 1 for 14 and 12). The code divides with \<^verbatim>\<open>/\<close>: for 14 and 12 the row of 10 becomes
  \<open>67 / 6\<close> on submit, not 11, and a row of 11 becomes \<open>59 / 6\<close> on cancellation, not 10
  (the correction adds or subtracts nothing in either run).
\<close>

theorem modify_depreciation_schedule_true_division:
  "increase_in_asset_life example_repair = 14 \<and>
   map frequency_of_depreciation (finance_books example_asset) = [12] \<and>
   map total_number_of_depreciations (finance_books example_asset) = [10] \<and>
   modify_depreciation_schedule_row example_env example_repair example_asset example_row
     = calculate_last_schedule_date example_env
         (set_flag_increase_in_asset_life False example_asset)
         (example_row\<lparr>total_number_of_depreciations := 67 / 6\<rparr>) 2 \<and>
   snd (modify_depreciation_schedule example_env example_repair example_asset) = None \<and>
   map total_number_of_depreciations
     (finance_books (fst (modify_depreciation_schedule example_env example_repair example_asset)))
     = [67 / 6] \<and>
   map total_number_of_depreciations
     (finance_books (fst (revert_depreciation_schedule_on_cancellation example_env example_repair
        (example_asset\<lparr>finance_books := [example_row\<lparr>total_number_of_depreciations := 11\<rparr>]\<rparr>))))
     = [59 / 6]"
proof -
  have a: "increase_in_asset_life example_repair = 14"
    by (simp add: example_repair_def)
  have b: "map frequency_of_depreciation (finance_books example_asset) = [12]"
    by (simp add: example_asset_def example_row_def)
  have c: "map total_number_of_depreciations (finance_books example_asset) = [10]"
    by (simp add: example_asset_def example_row_def)
  have d: "modify_depreciation_schedule_row example_env example_repair example_asset example_row
     = calculate_last_schedule_date example_env
         (set_flag_increase_in_asset_life False example_asset)
         (example_row\<lparr>total_number_of_depreciations := 67 / 6\<rparr>) 2"
    by (simp add: modify_depreciation_schedule_row_def Let_def example_repair_def example_row_def)
  have e: "snd (modify_depreciation_schedule example_env example_repair example_asset) = None"
    by code_simp
  have f: "map total_number_of_depreciations
     (finance_books (fst (modify_depreciation_schedule example_env example_repair example_asset)))
     = [67 / 6]"
    by code_simp
  have g: "map total_number_of_depreciations
     (finance_books (fst (revert_depreciation_schedule_on_cancellation example_env example_repair
        (example_asset\<lparr>finance_books := [example_row\<lparr>total_number_of_depreciations := 11\<rparr>]\<rparr>))))
     = [59 / 6]"
    by code_simp
  from a b c d e f g show ?thesis by simp
qed

text \<open>
  C10 (as stated). The claim promises a negative result whenever the completion date is
  earlier than the failure date. Ten seconds earlier, the result is 0.
\<close>

theorem get_downtime_counterexample:
  "(0::int) < 10 \<and> get_downtime 10 0 = 0 \<and> \<not> get_downtime 10 0 < 0"
  by code_simp

text \<open>
  C10 (amended). \<open>get_downtime\<close> checks no ordering and raises nothing: for a completion date
  earlier than the failure date it returns a number of hours, rounded to 2 decimals, that is
  never positive; it is negative when the completion date is more than 18 seconds earlier,
  and 0 when it is less than 18 seconds earlier.
\<close>

theorem get_downtime_nonpositive:
  assumes "completion_date < failure_date"
  shows "get_downtime failure_date completion_date \<le> 0
         \<and> (18 < failure_date - completion_date \<longrightarrow> get_downtime failure_date completion_date < 0)
         \<and> (failure_date - completion_date < 18 \<longrightarrow> get_downtime failure_date completion_date = 0)"
proof -
  let ?x = "time_diff_in_hours completion_date failure_date * 10 ^ 2"
  have x: "?x = of_int (completion_date - failure_date) / 36"
    by (simp add: time_diff_in_hours_def)
  have neg: "?x < 0" using assms unfolding x by (simp add: divide_neg_pos)
  have g: "get_downtime failure_date completion_date = of_int (round_half_even ?x) / 100"
    by (simp add: get_downtime_def py_round_def Let_def)
  have 1: "get_downtime failure_date completion_date \<le> 0"
    using round_half_even_nonpos [OF neg] unfolding g by (simp add: divide_le_0_iff)
  have 2: "get_downtime failure_date completion_date < 0" if "18 < failure_date - completion_date"
  proof -
    have "(of_int (completion_date - failure_date) :: rat) < - 18"
      using that by linarith
    then have "?x < - (1 / 2)" unfolding x by simp
    from round_half_even_neg [OF this] show ?thesis unfolding g by (simp add: divide_less_0_iff)
  qed
  have 3: "get_downtime failure_date completion_date = 0" if "failure_date - completion_date < 18"
  proof -
    have "- 18 < (of_int (completion_date - failure_date) :: rat)"
      using that by linarith
    then have "- (1 / 2) < ?x" unfolding x by simp
    from round_half_even_zero [OF this neg] show ?thesis unfolding g by simp
  qed
  from 1 2 3 show ?thesis by blast
qed

theorem get_downtime_nonpositive_witness:
  "(0::int) < 3600 \<and> (18::int) < 3600 - 0 \<and> get_downtime 3600 0 = - 1 \<and> get_downtime 3600 0 < 0 \<and>
   (0::int) < 10 \<and> (10::int) - 0 < 18 \<and> get_downtime 10 0 = 0"
proof -
  have h: "(0::int) < 3600" by simp
  have h': "(0::int) < 10" by simp
  have v: "get_downtime 3600 0 = - 1"
    by code_simp
  from get_downtime_nonpositive [OF h] get_downtime_nonpositive [OF h'] v show ?thesis by simp
qed

end
